theory Spec2Isabelle
  imports Complex_Main "HOL-Library.Word"
begin

section \<open>Pulsing-dot markers of \<open>dot-options-cursor.js\<close>\<close>

text \<open>
  The module exports five factories. Each returns a marker object with a pixel buffer
  \<open>data\<close> and a \<open>render\<close> callback; three of them also have an \<open>onAdd\<close> setup
  callback. The variables \<open>lastUpdate\<close> and \<open>currentFrame\<close> that the callbacks close
  over are kept in the same record as the object's properties.

  JavaScript numbers are modelled by real numbers (no rounding of floating point), the
  bytes of a \<open>Uint8Array\<close> or \<open>Uint8ClampedArray\<close> by 8-bit words. The clock
  \<open>performance.now()\<close> is an argument of \<open>render\<close>: one argument for each time the
  source reads it. An exception is the left injection of the result.
\<close>

subsection \<open>The host: canvas, clock and repaint trigger\<close>

type_synonym byte = "8 word"

datatype error = ReferenceError | TypeError | IndexSizeError

text \<open>
  A 2D drawing context is the list of the calls made on it, oldest first. What these
  calls paint is decided by the browser, so the bitmap is read through a parameter
  \<open>R\<close>: \<open>R cx x y c\<close> is channel \<open>c\<close> (0 to 3 for red, green, blue, alpha) of the pixel
  at column \<open>x\<close> and row \<open>y\<close> of the canvas behind \<open>cx\<close>.
\<close>

datatype cmd =
    ClearRect real real real real
  | BeginPath
  | Arc real real real real real
  | FillStyle string
  | StrokeStyle string
  | LineWidth real
  | Fill
  | Stroke

record canvas =
  cv_width :: nat
  cv_height :: nat
  cv_log :: "cmd list"

type_synonym raster = "canvas \<Rightarrow> nat \<Rightarrow> nat \<Rightarrow> nat \<Rightarrow> byte"

definition draw :: "canvas \<Rightarrow> cmd list \<Rightarrow> canvas" where
  "draw cx cs = cx\<lparr>cv_log := cv_log cx @ cs\<rparr>"

text \<open>
  \<open>document.createElement('canvas')\<close>, the two assignments to \<open>canvas.width\<close> and
  \<open>canvas.height\<close>, and \<open>canvas.getContext('2d', ...)\<close>, which is \<open>null\<close> where the
  browser has no 2D context (\<open>supported = False\<close>).
\<close>

definition getContext2d :: "bool \<Rightarrow> nat \<Rightarrow> nat \<Rightarrow> canvas option" where
  "getContext2d supported w h =
     (if supported then Some \<lparr>cv_width = w, cv_height = h, cv_log = []\<rparr> else None)"

text \<open>
  \<open>context.getImageData(0, 0, w, h).data\<close>: a fresh array of \<open>w * h * 4\<close> bytes in
  row-major RGBA order; a zero width or height raises \<open>IndexSizeError\<close>.
\<close>

definition image_bytes :: "raster \<Rightarrow> canvas \<Rightarrow> nat \<Rightarrow> nat \<Rightarrow> byte list" where
  "image_bytes R cx w h =
     map (\<lambda>i. R cx ((i div 4) mod w) ((i div 4) div w) (i mod 4)) [0 ..< w * h * 4]"

definition getImageData :: "raster \<Rightarrow> canvas \<Rightarrow> nat \<Rightarrow> nat \<Rightarrow> error + byte list" where
  "getImageData R cx w h =
     (if w = 0 \<or> h = 0 then Inl IndexSizeError else Inr (image_bytes R cx w h))"

text \<open>
  The styles under which a list of calls paints: for each \<open>fill()\<close> the fill style in
  force, for each \<open>stroke()\<close> the stroke style in force, starting from the styles \<open>f\<close>
  and \<open>k\<close>.
\<close>

fun paints :: "string \<Rightarrow> string \<Rightarrow> cmd list \<Rightarrow> string list" where
  "paints f k [] = []"
| "paints f k (FillStyle st # cs) = paints st k cs"
| "paints f k (StrokeStyle st # cs) = paints f st cs"
| "paints f k (Fill # cs) = f # paints f k cs"
| "paints f k (Stroke # cs) = k # paints f k cs"
| "paints f k (c # cs) = paints f k cs"

text \<open>A rasteriser that paints nothing, for evaluating the model at concrete inputs.\<close>

definition blank_raster :: raster where
  "blank_raster cx x y c = 0"

text \<open>A rasteriser under which every byte of the bitmap is 255 (opaque white).\<close>

definition white_raster :: raster where
  "white_raster cx x y c = 255"

subsection \<open>Numbers and strings\<close>

text \<open>The remainder operator \<open>%\<close> on numbers truncates the quotient towards zero.\<close>

definition js_trunc :: "real \<Rightarrow> int" where
  "js_trunc x = (if 0 \<le> x then \<lfloor>x\<rfloor> else \<lceil>x\<rceil>)"

definition js_rem :: "real \<Rightarrow> real \<Rightarrow> real" where
  "js_rem x d = x - d * of_int (js_trunc (x / d))"

definition duration :: real where
  "duration = 2000"

text \<open>\<open>t = (performance.now() % duration) / duration\<close>\<close>

definition phase :: "real \<Rightarrow> real" where
  "phase now = js_rem now duration / duration"

definition digit_char :: "nat \<Rightarrow> char" where
  "digit_char d = ''0123456789'' ! d"

fun nat_digits :: "nat \<Rightarrow> string" where
  "nat_digits n =
     (if n < 10 then [digit_char n] else nat_digits (n div 10) @ [digit_char (n mod 10)])"

text \<open>
  \<open>x.toFixed(2)\<close>: the sign, then the integer \<open>n\<close> nearest to \<open>100 * |x|\<close> (the larger
  one at a tie), padded with zeros to three digits, with a point before the last two.
\<close>

definition toFixed2 :: "real \<Rightarrow> string" where
  "toFixed2 x =
     (let n = nat \<lfloor>\<bar>x\<bar> * 100 + 1 / 2\<rfloor>;
          ds = nat_digits n;
          m = replicate (3 - length ds) (CHR ''0'') @ ds
      in (if x < 0 then ''-'' else '''') @
         take (length m - 2) m @ ''.'' @ drop (length m - 2) m)"

text \<open>
  \<open>s.replace(pat, rep)\<close> with a string pattern: the first occurrence of \<open>pat\<close> is
  replaced (the replacements of this module contain no \<open>$\<close>).
\<close>

fun replace_first :: "string \<Rightarrow> string \<Rightarrow> string \<Rightarrow> string" where
  "replace_first pat rep [] = (if pat = [] then rep else [])"
| "replace_first pat rep (c # cs) =
     (if take (length pat) (c # cs) = pat then rep @ drop (length pat) (c # cs)
      else c # replace_first pat rep cs)"

text \<open>
  Storing a number in a \<open>Uint8ClampedArray\<close>: clamped to 0..255 and rounded to the
  nearest integer, a tie going to the even one.
\<close>

definition clamp_round :: "real \<Rightarrow> nat" where
  "clamp_round x =
     (if x \<le> 0 then 0
      else if 255 \<le> x then 255
      else let f = \<lfloor>x\<rfloor> in
        nat (if x - of_int f < 1 / 2 then f
             else if 1 / 2 < x - of_int f then f + 1
             else if even f then f else f + 1))"

definition toUint8Clamp :: "real \<Rightarrow> byte" where
  "toUint8Clamp x = of_nat (clamp_round x)"

subsection \<open>Marker objects\<close>

record marker =
  width :: nat
  height :: nat
  data :: "byte list"

text \<open>
  The objects of the low-frame-rate and opacity variants. \<open>this_context\<close> is the
  property \<open>context\<close> (\<open>None\<close> while it is \<open>undefined\<close> or \<open>null\<close>), \<open>lastUpdate\<close>
  the closure variable, and \<open>repaints\<close> counts the calls of \<open>mapbox.triggerRepaint()\<close>.
  The module neither declares nor imports \<open>mapbox\<close>: it is the map object that the
  host page provides as a global, like \<open>document\<close> and \<open>performance\<close>.
\<close>

record dot = marker +
  size_px :: nat
  isCarrierVehicleOnRoute :: bool
  isGrey :: bool
  stopPulse :: bool
  this_context :: "canvas option"
  lastUpdate :: real
  repaints :: nat

record colors =
  outer :: string
  inner :: string
  stroke :: string

record pre_dot = dot +
  preRenderedFrames :: "byte list list option"
  currentFrame :: nat
  pre_colors :: colors

definition dot_size :: nat where
  "dot_size = 75"

subsection \<open>Colour selection\<close>

text \<open>The colour object of the low-frame-rate and pre-rendered variants.\<close>

definition pulse_colors :: "bool \<Rightarrow> bool \<Rightarrow> colors" where
  "pulse_colors grey onRoute =
     (if grey then
        \<lparr>outer = ''rgba(55, 64, 83, 0.6)'', inner = ''rgba(55, 64, 83, 1)'',
         stroke = ''rgba(237, 240, 240, 0.7)''\<rparr>
      else if onRoute then
        \<lparr>outer = ''rgba(84, 199, 116, 0.6)'', inner = ''rgba(84, 199, 116, 1)'',
         stroke = ''rgba(84, 199, 116, 1)''\<rparr>
      else
        \<lparr>outer = ''rgba(219, 55, 19, 0.6)'', inner = ''rgba(219, 55, 19, 1)'',
         stroke = ''rgba(237, 240, 240, 0.7)''\<rparr>)"

text \<open>The colour object of the opacity variant: the outer colour is opaque.\<close>

definition opacity_colors :: "bool \<Rightarrow> bool \<Rightarrow> colors" where
  "opacity_colors grey onRoute =
     (if grey then
        \<lparr>outer = ''rgba(55, 64, 83, 1)'', inner = ''rgba(55, 64, 83, 1)'',
         stroke = ''rgba(237, 240, 240, 0.7)''\<rparr>
      else if onRoute then
        \<lparr>outer = ''rgba(84, 199, 116, 1)'', inner = ''rgba(84, 199, 116, 1)'',
         stroke = ''rgba(84, 199, 116, 1)''\<rparr>
      else
        \<lparr>outer = ''rgba(219, 55, 19, 1)'', inner = ''rgba(219, 55, 19, 1)'',
         stroke = ''rgba(237, 240, 240, 0.7)''\<rparr>)"

text \<open>The colour object of the CSS variant (hexadecimal notation).\<close>

definition css_colors :: "bool \<Rightarrow> bool \<Rightarrow> colors" where
  "css_colors grey onRoute =
     (if grey then \<lparr>outer = ''#374053'', inner = ''#374053'', stroke = ''#edf0f0''\<rparr>
      else if onRoute then \<lparr>outer = ''#54c774'', inner = ''#54c774'', stroke = ''#54c774''\<rparr>
      else \<lparr>outer = ''#db3713'', inner = ''#db3713'', stroke = ''#edf0f0''\<rparr>)"

subsection \<open>Option 1: static marker\<close>

definition createStaticPulsingDot :: "bool \<Rightarrow> bool \<Rightarrow> marker" where
  "createStaticPulsingDot onRoute grey =
     \<lparr>width = dot_size, height = dot_size, data = replicate (dot_size * dot_size * 4) 0\<rparr>"

definition static_render :: "marker \<Rightarrow> marker \<times> bool" where
  "static_render m = (m, False)"

text \<open>A sequence of \<open>n\<close> calls of \<open>render\<close>: the final object and the values returned.\<close>

fun static_run :: "nat \<Rightarrow> marker \<Rightarrow> marker \<times> bool list" where
  "static_run 0 m = (m, [])"
| "static_run (Suc n) m =
     (let (m1, r) = static_render m; (m2, rs) = static_run n m1 in (m2, r # rs))"

subsection \<open>Option 5: CSS marker\<close>

text \<open>
  The factory selects \<open>css_colors\<close> but the returned object does not refer to them.
\<close>

definition createCSSPulsingDot :: "bool \<Rightarrow> bool \<Rightarrow> marker" where
  "createCSSPulsingDot onRoute grey =
     \<lparr>width = dot_size, height = dot_size, data = replicate (dot_size * dot_size * 4) 0\<rparr>"

definition css_render :: "marker \<Rightarrow> marker \<times> bool" where
  "css_render m = (m, False)"

subsection \<open>Option 2: reduced frame rate\<close>

definition lfr_updateInterval :: real where
  "lfr_updateInterval = 100"

definition createLowFrameRatePulsingDot :: "bool \<Rightarrow> bool \<Rightarrow> dot" where
  "createLowFrameRatePulsingDot onRoute grey =
     \<lparr>width = dot_size, height = dot_size, data = replicate (dot_size * dot_size * 4) 0,
      size_px = dot_size, isCarrierVehicleOnRoute = onRoute, isGrey = grey,
      stopPulse = False, this_context = None, lastUpdate = 0, repaints = 0\<rparr>"

definition lfr_onAdd :: "bool \<Rightarrow> dot \<Rightarrow> dot \<times> (error + unit)" where
  "lfr_onAdd supported s =
     (s\<lparr>this_context := getContext2d supported (width s) (height s)\<rparr>, Inr ())"

text \<open>
  The fill style of the outer circle at phase \<open>t\<close>. The difference \<open>0.6 - t\<close> is
  taken over the reals. Where it falls exactly between two hundredths the double of the
  source lies just below it, and \<open>toFixed\<close> then gives the lower hundredth (\<open>0.59\<close>
  at clock 10, where this definition gives \<open>0.60\<close>); no statement below depends on the
  digits at such a tie.
\<close>

definition lfr_outer_style :: "dot \<Rightarrow> real \<Rightarrow> string" where
  "lfr_outer_style s t =
     (if stopPulse s then ''rgba(219, 55, 19, 0)''
      else replace_first ''0.6'' (toFixed2 (0.6 - t))
             (outer (pulse_colors (isGrey s) (isCarrierVehicleOnRoute s))))"

text \<open>The canvas calls of one admitted \<open>render\<close>, in the order of the source.\<close>

definition lfr_commands :: "dot \<Rightarrow> real \<Rightarrow> cmd list" where
  "lfr_commands s t =
     (let radius = real (size_px s) / 2 * 0.3;
          outerRadius = real (size_px s) / 2 * 0.7 * t + radius;
          cs = pulse_colors (isGrey s) (isCarrierVehicleOnRoute s)
      in [ClearRect 0 0 (real (width s)) (real (height s)),
          BeginPath,
          Arc (real (width s) / 2) (real (height s) / 2) outerRadius 0 (pi * 2),
          FillStyle (lfr_outer_style s t),
          Fill,
          BeginPath,
          Arc (real (width s) / 2) (real (height s) / 2) radius 0 (pi * 2),
          FillStyle (inner cs),
          StrokeStyle (stroke cs),
          LineWidth 2,
          Fill,
          Stroke])"

text \<open>
  \<open>render\<close>; \<open>now\<close> and \<open>now'\<close> are the two readings of the clock. Without a context
  the first canvas call raises \<open>TypeError\<close>, after \<open>lastUpdate\<close> has been written.
\<close>

definition lfr_render :: "raster \<Rightarrow> real \<Rightarrow> real \<Rightarrow> dot \<Rightarrow> dot \<times> (error + bool)" where
  "lfr_render R now now' s =
     (if now - lastUpdate s < lfr_updateInterval then (s, Inr False)
      else
        let s1 = s\<lparr>lastUpdate := now\<rparr>;
            t = phase now'
        in (case this_context s1 of
              None \<Rightarrow> (s1, Inl TypeError)
            | Some cx \<Rightarrow>
                (let cx1 = draw cx (lfr_commands s1 t);
                     s2 = s1\<lparr>this_context := Some cx1\<rparr>
                 in (case getImageData R cx1 (width s2) (height s2) of
                       Inl e \<Rightarrow> (s2, Inl e)
                     | Inr img \<Rightarrow>
                         (s2\<lparr>data := img, repaints := repaints s2 + 1\<rparr>, Inr True)))))"

subsection \<open>Option 3: pre-rendered frames\<close>

definition frameCount :: nat where
  "frameCount = 20"

definition frameInterval :: real where
  "frameInterval = 100"

definition createPreRenderedPulsingDot :: "bool \<Rightarrow> bool \<Rightarrow> pre_dot" where
  "createPreRenderedPulsingDot onRoute grey =
     \<lparr>width = dot_size, height = dot_size, data = replicate (dot_size * dot_size * 4) 0,
      size_px = dot_size, isCarrierVehicleOnRoute = onRoute, isGrey = grey,
      stopPulse = False, this_context = None, lastUpdate = 0, repaints = 0,
      preRenderedFrames = None, currentFrame = 0, pre_colors = pulse_colors grey onRoute\<rparr>"

text \<open>
  \<open>onAdd\<close> stores the new context in \<open>this.context\<close> and the empty array in
  \<open>this.preRenderedFrames\<close>. The loop body then calls \<open>context.clearRect\<close>, where
  \<open>context\<close> is a bare identifier: the function declares \<open>canvas\<close>, \<open>i\<close>, \<open>t\<close>,
  \<open>radius\<close> and \<open>outerRadius\<close>, the factory \<open>size\<close>, \<open>frameCount\<close>,
  \<open>currentFrame\<close>, \<open>lastUpdate\<close>, \<open>frameInterval\<close>, \<open>colors\<close> and its two
  parameters, the module its five exports. Nothing binds \<open>context\<close>, so the first
  iteration raises \<open>ReferenceError\<close> at that call and the rest of the body (the
  drawing and the \<open>push\<close> of the frame) is never reached. The loop is entered because
  \<open>0 < frameCount\<close>.

  In that unreached part, the line that sets the fill style of the outer circle ends its
  template substitution before the parenthesis of the call to \<open>replace\<close> is closed
  (\<open>toFixed(2)})\<close>, where the low-frame-rate \<open>render\<close> has \<open>toFixed(2))}\<close>).
  The module is modelled with that line read as in the low-frame-rate \<open>render\<close>.
\<close>

definition pre_onAdd :: "bool \<Rightarrow> pre_dot \<Rightarrow> pre_dot \<times> (error + unit)" where
  "pre_onAdd supported s =
     (let s1 = s\<lparr>this_context := getContext2d supported (width s) (height s)\<rparr>;
          s2 = s1\<lparr>preRenderedFrames := Some []\<rparr>
      in if 0 < frameCount then (s2, Inl ReferenceError) else (s2, Inr ()))"

text \<open>
  \<open>render\<close>. Reading \<open>preRenderedFrames[currentFrame]\<close> beyond the end of the array
  gives \<open>undefined\<close>, which has no bytes; the model stores the empty buffer there.
\<close>

definition pre_render :: "real \<Rightarrow> pre_dot \<Rightarrow> pre_dot \<times> (error + bool)" where
  "pre_render now s =
     (if now - lastUpdate s < frameInterval then (s, Inr False)
      else
        let s1 = s\<lparr>lastUpdate := now\<rparr>
        in (case preRenderedFrames s1 of
              None \<Rightarrow> (s1, Inr False)
            | Some fs \<Rightarrow>
                if 0 < length fs then
                  (s1\<lparr>data := (if currentFrame s1 < length fs then fs ! currentFrame s1 else []),
                      currentFrame := (currentFrame s1 + 1) mod length fs,
                      repaints := repaints s1 + 1\<rparr>, Inr True)
                else (s1, Inr False)))"

text \<open>Successive calls of \<open>render\<close> at the clock readings of a list.\<close>

fun pre_run :: "real list \<Rightarrow> pre_dot \<Rightarrow> pre_dot" where
  "pre_run [] s = s"
| "pre_run (now # ts) s = pre_run ts (fst (pre_render now s))"

text \<open>
  Every reading of the list passes the gate: it lies at least \<open>interval\<close> after the
  reading before it, the first one after \<open>prev\<close>.
\<close>

fun admitted :: "real \<Rightarrow> real \<Rightarrow> real list \<Rightarrow> bool" where
  "admitted interval prev [] = True"
| "admitted interval prev (now # ts) =
     (\<not> now - prev < interval \<and> admitted interval now ts)"

subsection \<open>Option 4: opacity animation\<close>

definition opa_updateInterval :: real where
  "opa_updateInterval = 50"

definition createOpacityPulsingDot :: "bool \<Rightarrow> bool \<Rightarrow> dot" where
  "createOpacityPulsingDot onRoute grey =
     \<lparr>width = dot_size, height = dot_size, data = replicate (dot_size * dot_size * 4) 0,
      size_px = dot_size, isCarrierVehicleOnRoute = onRoute, isGrey = grey,
      stopPulse = False, this_context = None, lastUpdate = 0, repaints = 0\<rparr>"

text \<open>
  \<open>onAdd\<close> stores the new context in \<open>this.context\<close>, computes the two radii and
  selects \<open>opacity_colors\<close>; its first drawing call is \<open>context.beginPath()\<close> on the
  bare identifier \<open>context\<close>, which nothing binds here either (the function declares
  \<open>canvas\<close>, \<open>radius\<close>, \<open>outerRadius\<close> and \<open>colors\<close>). It raises
  \<open>ReferenceError\<close> and nothing is drawn on the canvas of \<open>this.context\<close>.
\<close>

definition opa_onAdd :: "bool \<Rightarrow> dot \<Rightarrow> dot \<times> (error + unit)" where
  "opa_onAdd supported s =
     (s\<lparr>this_context := getContext2d supported (width s) (height s)\<rparr>, Inl ReferenceError)"

text \<open>\<open>opacity = 0.3 + 0.7 * Math.sin(t * Math.PI)\<close>\<close>

definition opacity :: "real \<Rightarrow> real" where
  "opacity t = 0.3 + 0.7 * sin (t * pi)"

text \<open>
  The loop \<open>for (let i = 3; i < data.length; i += 4) data[i] = data[i] * opacity\<close>
  on the \<open>Uint8ClampedArray\<close> read from the canvas.
\<close>

function alpha_loop :: "real \<Rightarrow> nat \<Rightarrow> byte list \<Rightarrow> byte list" where
  "alpha_loop op i d =
     (if i < length d
      then alpha_loop op (i + 4) (d[i := toUint8Clamp (real (unat (d ! i)) * op)])
      else d)"
  by pat_completeness auto
termination
  by (relation "measure (\<lambda>(op, i, d). length d - i)") auto

declare alpha_loop.simps [simp del]

definition opa_render :: "raster \<Rightarrow> real \<Rightarrow> real \<Rightarrow> dot \<Rightarrow> dot \<times> (error + bool)" where
  "opa_render R now now' s =
     (if now - lastUpdate s < opa_updateInterval then (s, Inr False)
      else
        let s1 = s\<lparr>lastUpdate := now\<rparr>
        in if stopPulse s1 then (s1, Inr False)
           else
             (case this_context s1 of
                None \<Rightarrow> (s1, Inl TypeError)
              | Some cx \<Rightarrow>
                  (case getImageData R cx (width s1) (height s1) of
                     Inl e \<Rightarrow> (s1, Inl e)
                   | Inr img \<Rightarrow>
                       (s1\<lparr>data := alpha_loop (opacity (phase now')) 3 img,
                           repaints := repaints s1 + 1\<rparr>, Inr True))))"

text \<open>A ring of three frames, for evaluating the model at a concrete input.\<close>

definition three_frames :: "byte list list" where
  "three_frames = [replicate 22500 1, replicate 22500 2, replicate 22500 3]"

subsection \<open>Invariants of the buffer\<close>

text \<open>The dimensions are 75 by 75 and the buffer has four bytes for each pixel.\<close>

definition buffer_ok :: "'a marker_scheme \<Rightarrow> bool" where
  "buffer_ok m =
     (width m = dot_size \<and> height m = dot_size \<and> length (data m) = dot_size * dot_size * 4)"

text \<open>
  The ring of the pre-rendered variant: every frame has the size of the buffer, and the
  index lies inside a non-empty ring.
\<close>

definition frames_ok :: "pre_dot \<Rightarrow> bool" where
  "frames_ok p =
     (case preRenderedFrames p of
        None \<Rightarrow> True
      | Some fs \<Rightarrow>
          (fs = [] \<or> currentFrame p < length fs) \<and>
          list_all (\<lambda>f. length f = dot_size * dot_size * 4) fs)"

subsection \<open>What a call of \<open>render\<close> shows\<close>

text \<open>The calls recorded on the context of an object, and those added between two states.\<close>

definition log_of :: "dot \<Rightarrow> cmd list" where
  "log_of s = (case this_context s of None \<Rightarrow> [] | Some cx \<Rightarrow> cv_log cx)"

definition issued :: "dot \<Rightarrow> dot \<Rightarrow> cmd list" where
  "issued s s' = drop (length (log_of s)) (log_of s')"

text \<open>
  The alpha component of a colour written \<open>rgba(r, g, b, a)\<close>: the text between the
  last blank and the closing parenthesis. The colour paints nothing when that text is
  \<open>0\<close>, \<open>0.00\<close> or negative (CSS clamps a negative alpha to 0).
\<close>

definition css_alpha :: "string \<Rightarrow> string" where
  "css_alpha st = rev (takeWhile (\<lambda>c. c \<noteq> CHR '' '') (drop 1 (rev st)))"

definition fully_transparent :: "string \<Rightarrow> bool" where
  "fully_transparent st =
     (take 5 st = ''rgba('' \<and>
      (css_alpha st = ''0'' \<or> css_alpha st = ''0.00'' \<or> take 1 (css_alpha st) = ''-''))"

text \<open>
  A call of \<open>render\<close> from state \<open>s\<close> with outcome \<open>out\<close> shows nothing new when it
  is a no-op for the viewer (it returns \<open>false\<close> and leaves buffer, canvas and repaint
  count alone) or when it draws and every fill and stroke of it is fully transparent.
\<close>

definition stop_suppressed :: "dot \<Rightarrow> dot \<times> (error + bool) \<Rightarrow> bool" where
  "stop_suppressed s out =
     ((snd out = Inr False \<and> data (fst out) = data s \<and>
       this_context (fst out) = this_context s \<and> repaints (fst out) = repaints s)
      \<or> (issued s (fst out) \<noteq> [] \<and>
          list_all fully_transparent (paints ''#000000'' ''#000000'' (issued s (fst out)))))"

text \<open>A colour is opaque when its alpha component is written \<open>1\<close>.\<close>

definition opaque_style :: "string \<Rightarrow> bool" where
  "opaque_style st = (css_alpha st = ''1'')"

text \<open>
  The inner circle of a low-frame-rate \<open>render\<close> is painted opaque: the call from
  state \<open>s\<close> with outcome \<open>out\<close> paints three times (the outer fill, the inner fill
  and the stroke), the last two under opaque styles.
\<close>

definition inner_circle_opaque :: "dot \<Rightarrow> dot \<times> (error + bool) \<Rightarrow> bool" where
  "inner_circle_opaque s out =
     (let ps = paints ''#000000'' ''#000000'' (issued s (fst out))
      in length ps = 3 \<and> opaque_style (ps ! 1) \<and> opaque_style (ps ! 2))"

text \<open>A low-frame-rate marker after \<open>onAdd\<close>, with the stop flag set.\<close>

definition stopped_lfr_dot :: dot where
  "stopped_lfr_dot =
     (fst (lfr_onAdd True (createLowFrameRatePulsingDot False False)))\<lparr>stopPulse := True\<rparr>"

text \<open>An opacity marker after \<open>onAdd\<close>.\<close>

definition added_opacity_dot :: dot where
  "added_opacity_dot = fst (opa_onAdd True (createOpacityPulsingDot False False))"

section \<open>Properties\<close>

subsection \<open>The throttle gate\<close>

lemma lfr_render_skip:
  "now - lastUpdate s < lfr_updateInterval \<Longrightarrow> lfr_render R now now' s = (s, Inr False)"
  by (simp add: lfr_render_def)

lemma pre_render_skip:
  "now - lastUpdate p < frameInterval \<Longrightarrow> pre_render now p = (p, Inr False)"
  by (simp add: pre_render_def)

lemma opa_render_skip:
  "now - lastUpdate s < opa_updateInterval \<Longrightarrow> opa_render R now now' s = (s, Inr False)"
  by (simp add: opa_render_def)

lemma lfr_render_stamp:
  "\<not> now - lastUpdate s < lfr_updateInterval \<Longrightarrow> lastUpdate (fst (lfr_render R now now' s)) = now"
  by (simp add: lfr_render_def Let_def split: option.splits sum.splits)

lemma pre_render_stamp:
  "\<not> now - lastUpdate p < frameInterval \<Longrightarrow> lastUpdate (fst (pre_render now p)) = now"
  by (simp add: pre_render_def Let_def split: option.splits)

lemma opa_render_stamp:
  "\<not> now - lastUpdate s < opa_updateInterval \<Longrightarrow> lastUpdate (fst (opa_render R now now' s)) = now"
  by (simp add: opa_render_def Let_def split: option.splits sum.splits)

text \<open>
  Claim C1. The three throttled variants (low frame rate and pre-rendered with 100 ms,
  opacity with 50 ms) return \<open>false\<close> and leave the whole object, buffer and
  timestamp included, as it was when \<open>render\<close> reads a clock value less than the
  interval after \<open>lastUpdate\<close>, the last accepted tick. So a call that follows an
  accepted call by less than the interval returns \<open>false\<close>; the static and CSS
  variants return \<open>false\<close> at every call.
\<close>

theorem throttle_gate:
  fixes s :: dot and p :: pre_dot and m :: marker
  shows "lfr_updateInterval = 100 \<and> frameInterval = 100 \<and> opa_updateInterval = 50
    \<and> (now - lastUpdate s < lfr_updateInterval \<longrightarrow> lfr_render R now now' s = (s, Inr False))
    \<and> (now - lastUpdate p < frameInterval \<longrightarrow> pre_render now p = (p, Inr False))
    \<and> (now - lastUpdate s < opa_updateInterval \<longrightarrow> opa_render R now now' s = (s, Inr False))
    \<and> static_render m = (m, False)
    \<and> css_render m = (m, False)
    \<and> (\<not> a - lastUpdate s < lfr_updateInterval \<and> b - a < lfr_updateInterval \<longrightarrow>
          lfr_render R b b' (fst (lfr_render R a a' s)) = (fst (lfr_render R a a' s), Inr False))
    \<and> (\<not> a - lastUpdate p < frameInterval \<and> b - a < frameInterval \<longrightarrow>
          pre_render b (fst (pre_render a p)) = (fst (pre_render a p), Inr False))
    \<and> (\<not> a - lastUpdate s < opa_updateInterval \<and> b - a < opa_updateInterval \<longrightarrow>
          opa_render R b b' (fst (opa_render R a a' s)) = (fst (opa_render R a a' s), Inr False))
    \<and> snd (static_render (fst (static_render m))) = False
    \<and> snd (css_render (fst (css_render m))) = False"
proof -
  have two_lfr: "lfr_render R b b' (fst (lfr_render R a a' s)) = (fst (lfr_render R a a' s), Inr False)"
    if "\<not> a - lastUpdate s < lfr_updateInterval" "b - a < lfr_updateInterval"
    using that by (intro lfr_render_skip) (simp add: lfr_render_stamp)
  have two_pre: "pre_render b (fst (pre_render a p)) = (fst (pre_render a p), Inr False)"
    if "\<not> a - lastUpdate p < frameInterval" "b - a < frameInterval"
    using that by (intro pre_render_skip) (simp add: pre_render_stamp)
  have two_opa: "opa_render R b b' (fst (opa_render R a a' s)) = (fst (opa_render R a a' s), Inr False)"
    if "\<not> a - lastUpdate s < opa_updateInterval" "b - a < opa_updateInterval"
    using that by (intro opa_render_skip) (simp add: opa_render_stamp)
  show ?thesis
    using two_lfr two_pre two_opa
    by (simp add: lfr_render_skip pre_render_skip opa_render_skip static_render_def
        css_render_def lfr_updateInterval_def frameInterval_def opa_updateInterval_def)
qed

theorem throttle_gate_witness:
  "lfr_render blank_raster 160 161 ((createLowFrameRatePulsingDot False False)\<lparr>lastUpdate := 100\<rparr>)
     = ((createLowFrameRatePulsingDot False False)\<lparr>lastUpdate := 100\<rparr>, Inr False)
   \<and> pre_render 160 ((createPreRenderedPulsingDot False False)\<lparr>lastUpdate := 100\<rparr>)
     = ((createPreRenderedPulsingDot False False)\<lparr>lastUpdate := 100\<rparr>, Inr False)
   \<and> opa_render blank_raster 130 131 ((createOpacityPulsingDot False False)\<lparr>lastUpdate := 100\<rparr>)
     = ((createOpacityPulsingDot False False)\<lparr>lastUpdate := 100\<rparr>, Inr False)
   \<and> snd (pre_render 160 (fst (pre_render 100 (createPreRenderedPulsingDot False False)))) = Inr False"
proof -
  have l: "(160::real) - lastUpdate ((createLowFrameRatePulsingDot False False)\<lparr>lastUpdate := 100\<rparr>) < lfr_updateInterval"
    by (simp add: lfr_updateInterval_def)
  have p: "(160::real) - lastUpdate ((createPreRenderedPulsingDot False False)\<lparr>lastUpdate := 100\<rparr>) < frameInterval"
    by (simp add: frameInterval_def)
  have o: "(130::real) - lastUpdate ((createOpacityPulsingDot False False)\<lparr>lastUpdate := 100\<rparr>) < opa_updateInterval"
    by (simp add: opa_updateInterval_def)
  have p2: "\<not> (100::real) - lastUpdate (createPreRenderedPulsingDot False False) < frameInterval \<and> (160::real) - 100 < frameInterval"
    by (simp add: frameInterval_def createPreRenderedPulsingDot_def)
  have lfr: "lfr_render blank_raster 160 161 ((createLowFrameRatePulsingDot False False)\<lparr>lastUpdate := 100\<rparr>)
     = ((createLowFrameRatePulsingDot False False)\<lparr>lastUpdate := 100\<rparr>, Inr False)"
    using l throttle_gate [of 160 "(createLowFrameRatePulsingDot False False)\<lparr>lastUpdate := 100\<rparr>" blank_raster 161]
    by blast
  have pre: "pre_render 160 ((createPreRenderedPulsingDot False False)\<lparr>lastUpdate := 100\<rparr>)
     = ((createPreRenderedPulsingDot False False)\<lparr>lastUpdate := 100\<rparr>, Inr False)"
    using p throttle_gate [where now = 160 and p = "(createPreRenderedPulsingDot False False)\<lparr>lastUpdate := 100\<rparr>"]
    by blast
  have opa: "opa_render blank_raster 130 131 ((createOpacityPulsingDot False False)\<lparr>lastUpdate := 100\<rparr>)
     = ((createOpacityPulsingDot False False)\<lparr>lastUpdate := 100\<rparr>, Inr False)"
    using throttle_gate [where now = 130 and R = blank_raster and now' = 131
        and s = "(createOpacityPulsingDot False False)\<lparr>lastUpdate := 100\<rparr>"] o
    by blast
  have two: "snd (pre_render 160 (fst (pre_render 100 (createPreRenderedPulsingDot False False)))) = Inr False"
    using p2 throttle_gate [where a = 100 and b = 160 and p = "createPreRenderedPulsingDot False False"]
    by (metis snd_conv)
  show ?thesis using lfr pre opa two by simp
qed

subsection \<open>The static variant\<close>

lemma static_run_same: "static_run n m = (m, replicate n False)"
  by (induction n arbitrary: m) (simp_all add: static_render_def)

text \<open>
  Claim C8. The buffer of the static variant is all zeros at construction, \<open>render\<close>
  returns \<open>false\<close> and the object it was given, and so does every sequence of calls;
  \<open>render\<close> does not read the clock.
\<close>

theorem static_never_changes:
  "data (createStaticPulsingDot onRoute grey) = replicate (75 * 75 * 4) 0
   \<and> static_render m = (m, False)
   \<and> static_run n (createStaticPulsingDot onRoute grey)
       = (createStaticPulsingDot onRoute grey, replicate n False)"
  by (simp add: static_run_same static_render_def createStaticPulsingDot_def dot_size_def)

subsection \<open>The pre-rendered variant\<close>

lemma pre_render_admit:
  assumes "preRenderedFrames p = Some fs" "fs \<noteq> []" "currentFrame p < length fs"
    "\<not> now - lastUpdate p < frameInterval"
  shows "pre_render now p =
     (p\<lparr>lastUpdate := now, data := fs ! currentFrame p,
        currentFrame := (currentFrame p + 1) mod length fs,
        repaints := repaints p + 1\<rparr>, Inr True)"
  using assms by (simp add: pre_render_def Let_def)

lemma pre_render_index:
  assumes "preRenderedFrames p = Some fs" "fs \<noteq> []" "\<not> now - lastUpdate p < frameInterval"
  shows "currentFrame (fst (pre_render now p)) = (currentFrame p + 1) mod length fs"
    and "preRenderedFrames (fst (pre_render now p)) = Some fs"
    and "lastUpdate (fst (pre_render now p)) = now"
  using assms by (simp_all add: pre_render_def Let_def)

lemma pre_run_index:
  assumes "preRenderedFrames p = Some fs" "fs \<noteq> []"
    "admitted frameInterval (lastUpdate p) ts" "currentFrame p < length fs"
  shows "currentFrame (pre_run ts p) = (currentFrame p + length ts) mod length fs"
  using assms
proof (induction ts arbitrary: p)
  case Nil
  then show ?case by simp
next
  case (Cons now ts)
  let ?q = "fst (pre_render now p)"
  from Cons.prems have adm: "\<not> now - lastUpdate p < frameInterval"
    and rest: "admitted frameInterval now ts" by simp_all
  note ix = pre_render_index [OF Cons.prems(1,2) adm]
  have "currentFrame (pre_run ts ?q) = (currentFrame ?q + length ts) mod length fs"
    using Cons.IH [of ?q] ix rest Cons.prems(2) by simp
  also have "\<dots> = ((currentFrame p + 1) mod length fs + length ts) mod length fs"
    by (simp only: ix(1))
  also have "\<dots> = (currentFrame p + 1 + length ts) mod length fs"
    by (rule mod_add_left_eq)
  finally show ?case by (simp add: ac_simps)
qed

text \<open>
  Claim C3. With a non-empty ring \<open>fs\<close> of pre-rendered frames and the index inside
  it, a tick that passes the gate copies frame \<open>fs ! currentFrame\<close> into \<open>data\<close>,
  advances the index by one modulo \<open>length fs\<close> and returns \<open>true\<close>. From index 0,
  after \<open>k\<close> admitted ticks the index is \<open>k mod length fs\<close>: it is 0 again after
  exactly \<open>length fs\<close> ticks and at no smaller positive number of ticks.
\<close>

theorem frame_cycling:
  assumes "preRenderedFrames p = Some fs" and "fs \<noteq> []" and "currentFrame p < length fs"
  shows "(\<not> now - lastUpdate p < frameInterval \<longrightarrow>
            pre_render now p =
              (p\<lparr>lastUpdate := now, data := fs ! currentFrame p,
                 currentFrame := (currentFrame p + 1) mod length fs,
                 repaints := repaints p + 1\<rparr>, Inr True))
       \<and> (currentFrame p = 0 \<and> admitted frameInterval (lastUpdate p) ts \<longrightarrow>
            currentFrame (pre_run ts p) = length ts mod length fs
          \<and> (length ts = length fs \<longrightarrow> currentFrame (pre_run ts p) = 0)
          \<and> (0 < length ts \<and> length ts < length fs \<longrightarrow> currentFrame (pre_run ts p) \<noteq> 0))"
proof -
  have run: "currentFrame (pre_run ts p) = length ts mod length fs"
    if "currentFrame p = 0" "admitted frameInterval (lastUpdate p) ts"
    using pre_run_index [OF assms(1,2) that(2) assms(3)] that(1) by simp
  show ?thesis
    using run pre_render_admit [OF assms] by auto
qed

theorem frame_cycling_witness:
  "pre_render 100 ((createPreRenderedPulsingDot False False)\<lparr>preRenderedFrames := Some three_frames\<rparr>)
     = ((createPreRenderedPulsingDot False False)
          \<lparr>preRenderedFrames := Some three_frames, lastUpdate := 100,
           data := replicate 22500 1, currentFrame := 1, repaints := 1\<rparr>, Inr True)
   \<and> currentFrame (pre_run [100, 200, 300]
         ((createPreRenderedPulsingDot False False)\<lparr>preRenderedFrames := Some three_frames\<rparr>)) = 0
   \<and> currentFrame (pre_run [100, 200]
         ((createPreRenderedPulsingDot False False)\<lparr>preRenderedFrames := Some three_frames\<rparr>)) \<noteq> 0"
proof -
  let ?p = "(createPreRenderedPulsingDot False False)\<lparr>preRenderedFrames := Some three_frames\<rparr>"
  have h1: "preRenderedFrames ?p = Some three_frames" by simp
  have h2: "three_frames \<noteq> []" by (simp add: three_frames_def)
  have h3: "currentFrame ?p < length three_frames"
    by (simp add: three_frames_def createPreRenderedPulsingDot_def)
  have c0: "currentFrame ?p = 0" by (simp add: createPreRenderedPulsingDot_def)
  have l0: "lastUpdate ?p = 0" by (simp add: createPreRenderedPulsingDot_def)
  have g: "\<not> (100::real) - lastUpdate ?p < frameInterval"
    by (simp add: l0 frameInterval_def)
  have a3: "admitted frameInterval (lastUpdate ?p) [100, 200, 300]"
    by (simp add: l0 frameInterval_def)
  have a2: "admitted frameInterval (lastUpdate ?p) [100, 200]"
    by (simp add: l0 frameInterval_def)
  have one: "pre_render 100 ?p =
      (?p\<lparr>lastUpdate := 100, data := three_frames ! currentFrame ?p,
         currentFrame := (currentFrame ?p + 1) mod length three_frames,
         repaints := repaints ?p + 1\<rparr>, Inr True)"
    using frame_cycling [OF h1 h2 h3, of 100] g by blast
  have n3: "length [100, 200, 300 :: real] = length three_frames"
    by (simp add: three_frames_def)
  have n2: "0 < length [100, 200 :: real] \<and> length [100, 200 :: real] < length three_frames"
    by (simp add: three_frames_def)
  have three: "currentFrame (pre_run [100, 200, 300] ?p) = 0"
    using frame_cycling [OF h1 h2 h3, of 100 "[100, 200, 300]"] c0 a3 n3 by blast
  have two: "currentFrame (pre_run [100, 200] ?p) \<noteq> 0"
    using frame_cycling [OF h1 h2 h3, of 100 "[100, 200]"] c0 a2 n2 by blast
  have "pre_render 100 ?p =
      ((createPreRenderedPulsingDot False False)
          \<lparr>preRenderedFrames := Some three_frames, lastUpdate := 100,
           data := replicate 22500 1, currentFrame := 1, repaints := 1\<rparr>, Inr True)"
    unfolding one by (simp add: three_frames_def createPreRenderedPulsingDot_def)
  then show ?thesis using three two by simp
qed

text \<open>
  Claim C4. \<open>onAdd\<close> of the pre-rendered variant does not complete: it raises
  \<open>ReferenceError\<close> in the first iteration of its loop and leaves
  \<open>preRenderedFrames\<close> empty, so no later \<open>render\<close> copies a frame.
\<close>

theorem pre_onAdd_raises:
  "pre_onAdd True (createPreRenderedPulsingDot False False) =
     ((createPreRenderedPulsingDot False False)
        \<lparr>this_context := Some \<lparr>cv_width = 75, cv_height = 75, cv_log = []\<rparr>,
         preRenderedFrames := Some []\<rparr>, Inl ReferenceError)
   \<and> snd (pre_onAdd supported p) = Inl ReferenceError
   \<and> preRenderedFrames (fst (pre_onAdd supported p)) = Some []
   \<and> snd (pre_render now (fst (pre_onAdd supported p))) = Inr False
   \<and> data (fst (pre_render now (fst (pre_onAdd supported p)))) = data p"
  by (simp add: pre_onAdd_def pre_render_def createPreRenderedPulsingDot_def frameCount_def
      getContext2d_def dot_size_def Let_def)

subsection \<open>Colours\<close>

text \<open>
  Claim C6. Each of the three colour selections gives the grey triple when the grey
  flag is set, whatever the route flag; else the green triple when the route flag is
  set; else the red triple. The pre-rendered factory stores the selection for its
  arguments, and the low-frame-rate \<open>render\<close> paints with the selection for the two
  flags of the object: the inner fill and the stroke as selected, the outer fill (when
  not stopped) as the selected outer colour with its alpha replaced.
\<close>

theorem color_precedence:
  "pulse_colors True onRoute =
     \<lparr>outer = ''rgba(55, 64, 83, 0.6)'', inner = ''rgba(55, 64, 83, 1)'',
      stroke = ''rgba(237, 240, 240, 0.7)''\<rparr>
   \<and> pulse_colors False True =
     \<lparr>outer = ''rgba(84, 199, 116, 0.6)'', inner = ''rgba(84, 199, 116, 1)'',
      stroke = ''rgba(84, 199, 116, 1)''\<rparr>
   \<and> pulse_colors False False =
     \<lparr>outer = ''rgba(219, 55, 19, 0.6)'', inner = ''rgba(219, 55, 19, 1)'',
      stroke = ''rgba(237, 240, 240, 0.7)''\<rparr>
   \<and> opacity_colors True onRoute =
     \<lparr>outer = ''rgba(55, 64, 83, 1)'', inner = ''rgba(55, 64, 83, 1)'',
      stroke = ''rgba(237, 240, 240, 0.7)''\<rparr>
   \<and> opacity_colors False True =
     \<lparr>outer = ''rgba(84, 199, 116, 1)'', inner = ''rgba(84, 199, 116, 1)'',
      stroke = ''rgba(84, 199, 116, 1)''\<rparr>
   \<and> opacity_colors False False =
     \<lparr>outer = ''rgba(219, 55, 19, 1)'', inner = ''rgba(219, 55, 19, 1)'',
      stroke = ''rgba(237, 240, 240, 0.7)''\<rparr>
   \<and> css_colors True onRoute =
     \<lparr>outer = ''#374053'', inner = ''#374053'', stroke = ''#edf0f0''\<rparr>
   \<and> css_colors False True =
     \<lparr>outer = ''#54c774'', inner = ''#54c774'', stroke = ''#54c774''\<rparr>
   \<and> css_colors False False =
     \<lparr>outer = ''#db3713'', inner = ''#db3713'', stroke = ''#edf0f0''\<rparr>
   \<and> pre_colors (createPreRenderedPulsingDot onRoute grey) = pulse_colors grey onRoute
   \<and> paints f k (lfr_commands s t) =
       [lfr_outer_style s t,
        inner (pulse_colors (isGrey s) (isCarrierVehicleOnRoute s)),
        stroke (pulse_colors (isGrey s) (isCarrierVehicleOnRoute s))]
   \<and> lfr_outer_style (s\<lparr>stopPulse := False\<rparr>) t =
       replace_first ''0.6'' (toFixed2 (0.6 - t))
         (outer (pulse_colors (isGrey s) (isCarrierVehicleOnRoute s)))"
  by (simp add: pulse_colors_def opacity_colors_def css_colors_def
      createPreRenderedPulsingDot_def lfr_commands_def lfr_outer_style_def Let_def)

subsection \<open>The size of the buffer\<close>

lemma length_image_bytes: "length (image_bytes R cx w h) = w * h * 4"
  by (simp add: image_bytes_def)

lemma getImageData_length: "getImageData R cx w h = Inr img \<Longrightarrow> length img = w * h * 4"
  by (auto simp: getImageData_def length_image_bytes split: if_splits)

lemma length_alpha_loop: "length (alpha_loop op i d) = length d"
proof (induction op i d rule: alpha_loop.induct)
  case (1 op i d)
  show ?case
  proof (cases "i < length d")
    case True
    then show ?thesis using "1.IH" by (subst alpha_loop.simps) simp
  next
    case False
    then show ?thesis by (subst alpha_loop.simps) simp
  qed
qed


lemma lfr_render_buffer_ok:
  fixes s :: dot
  assumes "buffer_ok s"
  shows "buffer_ok (fst (lfr_render R now now' s))"
  using assms
  by (simp add: lfr_render_def buffer_ok_def Let_def getImageData_def length_image_bytes
      split: option.split)

lemma opa_render_buffer_ok:
  fixes s :: dot
  assumes "buffer_ok s"
  shows "buffer_ok (fst (opa_render R now now' s))"
  using assms
  by (simp add: opa_render_def buffer_ok_def Let_def getImageData_def length_image_bytes
      length_alpha_loop split: option.split)

lemma pre_render_buffer_ok:
  assumes "buffer_ok p" "frames_ok p"
  shows "buffer_ok (fst (pre_render now p))"
proof (cases "preRenderedFrames p")
  case None
  then show ?thesis using assms(1) by (simp add: pre_render_def buffer_ok_def Let_def)
next
  case (Some fs)
  show ?thesis
  proof (cases "fs = []")
    case True
    then show ?thesis using assms(1) Some by (simp add: pre_render_def buffer_ok_def Let_def)
  next
    case False
    with assms(2) Some have "currentFrame p < length fs"
      and "length (fs ! currentFrame p) = dot_size * dot_size * 4"
      by (simp_all add: frames_ok_def list_all_length)
    then show ?thesis
      using assms(1) Some False by (simp add: pre_render_def buffer_ok_def Let_def)
  qed
qed

lemma pre_render_frames_ok:
  assumes "frames_ok p"
  shows "frames_ok (fst (pre_render now p))"
proof (cases "preRenderedFrames p")
  case None
  then show ?thesis by (simp add: pre_render_def frames_ok_def Let_def)
next
  case (Some fs)
  then show ?thesis
    using assms by (cases "fs = []") (simp_all add: pre_render_def frames_ok_def Let_def)
qed

lemma onAdd_buffer_ok:
  "buffer_ok s \<Longrightarrow> buffer_ok (fst (lfr_onAdd supported s))"
  "buffer_ok s \<Longrightarrow> buffer_ok (fst (opa_onAdd supported s))"
  "buffer_ok p \<Longrightarrow> buffer_ok (fst (pre_onAdd supported p))"
  "frames_ok (fst (pre_onAdd supported p))"
  by (simp_all add: buffer_ok_def frames_ok_def lfr_onAdd_def opa_onAdd_def pre_onAdd_def Let_def)

lemma created_buffer_ok:
  "buffer_ok (createStaticPulsingDot onRoute grey)"
  "buffer_ok (createLowFrameRatePulsingDot onRoute grey)"
  "buffer_ok (createPreRenderedPulsingDot onRoute grey)"
  "buffer_ok (createOpacityPulsingDot onRoute grey)"
  "buffer_ok (createCSSPulsingDot onRoute grey)"
  "frames_ok (createPreRenderedPulsingDot onRoute grey)"
  by (simp_all add: buffer_ok_def frames_ok_def createStaticPulsingDot_def
      createLowFrameRatePulsingDot_def createPreRenderedPulsingDot_def
      createOpacityPulsingDot_def createCSSPulsingDot_def)

text \<open>
  Claim C7. Every factory returns a buffer of \<open>75 * 75 * 4\<close> bytes with width and
  height 75, and every \<open>onAdd\<close> and every \<open>render\<close> keeps that, whatever they
  return or raise. For the pre-rendered variant the frames of the ring must have that size too, which
  \<open>onAdd\<close> and \<open>render\<close> preserve as well.
\<close>

theorem buffer_size_invariant:
  fixes m :: marker and s :: dot and p :: pre_dot
  shows "buffer_ok (createStaticPulsingDot onRoute grey)
    \<and> buffer_ok (createLowFrameRatePulsingDot onRoute grey)
    \<and> buffer_ok (createPreRenderedPulsingDot onRoute grey)
    \<and> frames_ok (createPreRenderedPulsingDot onRoute grey)
    \<and> buffer_ok (createOpacityPulsingDot onRoute grey)
    \<and> buffer_ok (createCSSPulsingDot onRoute grey)
    \<and> (buffer_ok m \<longrightarrow> length (data m) = 75 * 75 * 4
          \<and> buffer_ok (fst (static_render m)) \<and> buffer_ok (fst (css_render m)))
    \<and> (buffer_ok s \<longrightarrow> length (data s) = 75 * 75 * 4
          \<and> buffer_ok (fst (lfr_onAdd supported s))
          \<and> buffer_ok (fst (lfr_render R now now' s))
          \<and> buffer_ok (fst (opa_onAdd supported s))
          \<and> buffer_ok (fst (opa_render R now now' s)))
    \<and> (buffer_ok p \<and> frames_ok p \<longrightarrow> length (data p) = 75 * 75 * 4
          \<and> buffer_ok (fst (pre_onAdd supported p))
          \<and> frames_ok (fst (pre_onAdd supported p))
          \<and> buffer_ok (fst (pre_render now p))
          \<and> frames_ok (fst (pre_render now p)))"
proof -
  have len: "length (data x) = 75 * 75 * 4" if "buffer_ok x" for x :: "'a marker_scheme"
    using that by (simp add: buffer_ok_def dot_size_def)
  show ?thesis
    using len [of m] len [of s] len [of p]
    by (simp add: created_buffer_ok onAdd_buffer_ok lfr_render_buffer_ok opa_render_buffer_ok
        pre_render_buffer_ok pre_render_frames_ok static_render_def css_render_def)
qed


theorem buffer_size_invariant_witness:
  "length (data (fst (lfr_render blank_raster 100 101
      (fst (lfr_onAdd True (createLowFrameRatePulsingDot False False)))))) = 75 * 75 * 4
   \<and> length (data (fst (opa_render blank_raster 100 101
      (fst (opa_onAdd True (createOpacityPulsingDot False False)))))) = 75 * 75 * 4
   \<and> length (data (fst (pre_render 100
      ((createPreRenderedPulsingDot False False)\<lparr>preRenderedFrames := Some three_frames\<rparr>)))) = 75 * 75 * 4
   \<and> length (data (fst (static_render (createStaticPulsingDot False False)))) = 75 * 75 * 4"
proof -
  let ?l = "createLowFrameRatePulsingDot False False"
  let ?o = "createOpacityPulsingDot False False"
  let ?p = "(createPreRenderedPulsingDot False False)\<lparr>preRenderedFrames := Some three_frames\<rparr>"
  let ?m = "createStaticPulsingDot False False"
  have l0: "buffer_ok ?l"
    by (simp add: buffer_ok_def createLowFrameRatePulsingDot_def)
  have o0: "buffer_ok ?o"
    by (simp add: buffer_ok_def createOpacityPulsingDot_def)
  have p0: "buffer_ok ?p \<and> frames_ok ?p"
    by (simp add: buffer_ok_def frames_ok_def createPreRenderedPulsingDot_def three_frames_def
        dot_size_def)
  have m0: "buffer_ok ?m"
    by (simp add: buffer_ok_def createStaticPulsingDot_def)
  have l1: "buffer_ok (fst (lfr_onAdd True ?l))"
    using l0 buffer_size_invariant [where s = ?l and supported = True] by blast
  have l2: "buffer_ok (fst (lfr_render blank_raster 100 101 (fst (lfr_onAdd True ?l))))"
    using l1 buffer_size_invariant [where s = "fst (lfr_onAdd True ?l)" and R = blank_raster
        and now = 100 and now' = 101] by blast
  have l3: "length (data (fst (lfr_render blank_raster 100 101 (fst (lfr_onAdd True ?l))))) = 75 * 75 * 4"
    using l2 buffer_size_invariant
      [where s = "fst (lfr_render blank_raster 100 101 (fst (lfr_onAdd True ?l)))"] by blast
  have o1: "buffer_ok (fst (opa_onAdd True ?o))"
    using o0 buffer_size_invariant [where s = ?o and supported = True] by blast
  have o2: "buffer_ok (fst (opa_render blank_raster 100 101 (fst (opa_onAdd True ?o))))"
    using o1 buffer_size_invariant [where s = "fst (opa_onAdd True ?o)" and R = blank_raster
        and now = 100 and now' = 101] by blast
  have o3: "length (data (fst (opa_render blank_raster 100 101 (fst (opa_onAdd True ?o))))) = 75 * 75 * 4"
    using o2 buffer_size_invariant
      [where s = "fst (opa_render blank_raster 100 101 (fst (opa_onAdd True ?o)))"] by blast
  have p1: "buffer_ok (fst (pre_render 100 ?p)) \<and> frames_ok (fst (pre_render 100 ?p))"
    using p0 buffer_size_invariant [where p = ?p and now = 100] by blast
  have p2: "length (data (fst (pre_render 100 ?p))) = 75 * 75 * 4"
    using p1 buffer_size_invariant [where p = "fst (pre_render 100 ?p)"] by blast
  have m1: "buffer_ok (fst (static_render ?m))"
    using m0 buffer_size_invariant [where m = ?m] by blast
  have m2: "length (data (fst (static_render ?m))) = 75 * 75 * 4"
    using m1 buffer_size_invariant [where m = "fst (static_render ?m)"] by blast
  show ?thesis using l3 o3 p2 m2 by blast
qed

subsection \<open>The low-frame-rate variant and the stop flag\<close>

lemma lfr_commands_lastUpdate: "lfr_commands (s\<lparr>lastUpdate := x\<rparr>) t = lfr_commands s t"
  by (simp add: lfr_commands_def lfr_outer_style_def)

lemma lfr_render_admit:
  assumes "\<not> now - lastUpdate s < lfr_updateInterval" and "this_context s = Some cx"
    and "0 < width s" and "0 < height s"
  shows "lfr_render R now now' s =
     (s\<lparr>lastUpdate := now,
        this_context := Some (draw cx (lfr_commands s (phase now'))),
        data := image_bytes R (draw cx (lfr_commands s (phase now'))) (width s) (height s),
        repaints := repaints s + 1\<rparr>, Inr True)"
  using assms
  by (simp add: lfr_render_def Let_def getImageData_def lfr_commands_lastUpdate)

lemma paints_lfr_commands:
  "paints f k (lfr_commands s t) =
     [lfr_outer_style s t,
      inner (pulse_colors (isGrey s) (isCarrierVehicleOnRoute s)),
      stroke (pulse_colors (isGrey s) (isCarrierVehicleOnRoute s))]"
  by (simp add: lfr_commands_def Let_def)

lemma css_alpha_inner: "css_alpha (inner (pulse_colors grey onRoute)) = ''1''"
  by (simp add: pulse_colors_def css_alpha_def)

lemma css_alpha_stroke:
  "css_alpha (stroke (pulse_colors grey onRoute)) = (if \<not> grey \<and> onRoute then ''1'' else ''0.7'')"
  by (simp add: pulse_colors_def css_alpha_def)

text \<open>
  Claim C9, amended. When the gate admits a tick of the low-frame-rate variant (and
  \<open>onAdd\<close> has stored a context), \<open>render\<close> records the tick, issues its twelve
  canvas calls, reads the canvas into \<open>data\<close>, calls the repaint trigger once and
  returns \<open>true\<close>, with the stop flag set or not. The flag only replaces the fill
  style of the outer circle by the transparent \<open>rgba(219, 55, 19, 0)\<close>: the call list
  is the unstopped one with that single entry changed. The inner circle is still filled
  with an opaque colour (alpha 1) and stroked; the stroke colour is opaque (alpha 1) for
  a route-active marker that is not grey, and has alpha 0.7 for a default or grey marker.
\<close>

theorem lfr_admitted_redraws:
  assumes "\<not> now - lastUpdate s < lfr_updateInterval" and "this_context s = Some cx"
    and "0 < width s" and "0 < height s"
  shows "lfr_render R now now' s =
     (s\<lparr>lastUpdate := now,
        this_context := Some (draw cx (lfr_commands s (phase now'))),
        data := image_bytes R (draw cx (lfr_commands s (phase now'))) (width s) (height s),
        repaints := repaints s + 1\<rparr>, Inr True)
   \<and> paints f k (lfr_commands s (phase now')) =
     [lfr_outer_style s (phase now'),
      inner (pulse_colors (isGrey s) (isCarrierVehicleOnRoute s)),
      stroke (pulse_colors (isGrey s) (isCarrierVehicleOnRoute s))]
   \<and> (stopPulse s \<longrightarrow> lfr_outer_style s (phase now') = ''rgba(219, 55, 19, 0)''
        \<and> fully_transparent (lfr_outer_style s (phase now')))
   \<and> lfr_commands (s\<lparr>stopPulse := True\<rparr>) (phase now') =
       (lfr_commands (s\<lparr>stopPulse := False\<rparr>) (phase now'))
         [3 := FillStyle ''rgba(219, 55, 19, 0)'']
   \<and> css_alpha (inner (pulse_colors (isGrey s) (isCarrierVehicleOnRoute s))) = ''1''
   \<and> opaque_style (inner (pulse_colors (isGrey s) (isCarrierVehicleOnRoute s)))
   \<and> css_alpha (stroke (pulse_colors (isGrey s) (isCarrierVehicleOnRoute s))) =
       (if \<not> isGrey s \<and> isCarrierVehicleOnRoute s then ''1'' else ''0.7'')
   \<and> opaque_style (stroke (pulse_colors (isGrey s) (isCarrierVehicleOnRoute s))) =
       (\<not> isGrey s \<and> isCarrierVehicleOnRoute s)
   \<and> \<not> fully_transparent (inner (pulse_colors (isGrey s) (isCarrierVehicleOnRoute s)))
   \<and> \<not> fully_transparent (stroke (pulse_colors (isGrey s) (isCarrierVehicleOnRoute s)))"
proof -
  have oi: "opaque_style (inner (pulse_colors (isGrey s) (isCarrierVehicleOnRoute s)))"
    by (simp add: opaque_style_def css_alpha_inner)
  have os: "opaque_style (stroke (pulse_colors (isGrey s) (isCarrierVehicleOnRoute s))) =
       (\<not> isGrey s \<and> isCarrierVehicleOnRoute s)"
    by (simp add: opaque_style_def css_alpha_stroke)
  have stop: "lfr_outer_style s (phase now') = ''rgba(219, 55, 19, 0)''
        \<and> fully_transparent (lfr_outer_style s (phase now'))" if "stopPulse s"
    using that by (simp add: lfr_outer_style_def fully_transparent_def css_alpha_def)
  have upd: "lfr_commands (s\<lparr>stopPulse := True\<rparr>) (phase now') =
       (lfr_commands (s\<lparr>stopPulse := False\<rparr>) (phase now'))
         [3 := FillStyle ''rgba(219, 55, 19, 0)'']"
    by (simp add: lfr_commands_def lfr_outer_style_def Let_def)
  have ni: "\<not> fully_transparent (inner (pulse_colors (isGrey s) (isCarrierVehicleOnRoute s)))"
    by (simp add: fully_transparent_def css_alpha_inner)
  have ns: "\<not> fully_transparent (stroke (pulse_colors (isGrey s) (isCarrierVehicleOnRoute s)))"
    by (simp add: fully_transparent_def css_alpha_stroke)
  show ?thesis
    using lfr_render_admit [OF assms] paints_lfr_commands stop upd css_alpha_inner
      css_alpha_stroke oi os ni ns
    by blast
qed

lemma stopped_lfr_dot_fields:
  "lastUpdate stopped_lfr_dot = 0"
  "this_context stopped_lfr_dot = Some \<lparr>cv_width = 75, cv_height = 75, cv_log = []\<rparr>"
  "width stopped_lfr_dot = 75" "height stopped_lfr_dot = 75" "size_px stopped_lfr_dot = 75"
  "stopPulse stopped_lfr_dot" "\<not> isGrey stopped_lfr_dot"
  "\<not> isCarrierVehicleOnRoute stopped_lfr_dot" "repaints stopped_lfr_dot = 0"
  by (simp_all add: stopped_lfr_dot_def lfr_onAdd_def createLowFrameRatePulsingDot_def
      getContext2d_def dot_size_def)

theorem lfr_admitted_redraws_witness:
  "snd (lfr_render blank_raster 100 2500 stopped_lfr_dot) = Inr True
   \<and> repaints (fst (lfr_render blank_raster 100 2500 stopped_lfr_dot)) = 1
   \<and> paints ''#000000'' ''#000000'' (lfr_commands stopped_lfr_dot (phase 2500)) =
       [''rgba(219, 55, 19, 0)'', ''rgba(219, 55, 19, 1)'', ''rgba(237, 240, 240, 0.7)'']
   \<and> paints ''#000000'' ''#000000''
         (lfr_commands (stopped_lfr_dot\<lparr>stopPulse := False\<rparr>) (phase 2500)) =
       [''rgba(219, 55, 19, 0.35)'', ''rgba(219, 55, 19, 1)'', ''rgba(237, 240, 240, 0.7)'']
   \<and> css_alpha (stroke (pulse_colors (isGrey stopped_lfr_dot)
         (isCarrierVehicleOnRoute stopped_lfr_dot))) = ''0.7''
   \<and> opaque_style (inner (pulse_colors (isGrey stopped_lfr_dot)
         (isCarrierVehicleOnRoute stopped_lfr_dot)))"
proof -
  let ?cx = "\<lparr>cv_width = 75, cv_height = 75, cv_log = []\<rparr>"
  let ?u = "stopped_lfr_dot\<lparr>stopPulse := False\<rparr>"
  have g: "\<not> (100::real) - lastUpdate stopped_lfr_dot < lfr_updateInterval"
    by (simp add: stopped_lfr_dot_fields lfr_updateInterval_def)
  have c: "this_context stopped_lfr_dot = Some ?cx" by (rule stopped_lfr_dot_fields)
  have w: "0 < width stopped_lfr_dot" and h: "0 < height stopped_lfr_dot"
    by (simp_all add: stopped_lfr_dot_fields)
  note t = lfr_admitted_redraws [OF g c w h, of blank_raster 2500 "''#000000''" "''#000000''"]
  have gu: "\<not> (100::real) - lastUpdate ?u < lfr_updateInterval"
    by (simp add: stopped_lfr_dot_fields lfr_updateInterval_def)
  have cu: "this_context ?u = Some ?cx" by (simp add: stopped_lfr_dot_fields)
  have wu: "0 < width ?u" and hu: "0 < height ?u"
    by (simp_all add: stopped_lfr_dot_fields)
  note u = lfr_admitted_redraws [OF gu cu wu hu, of blank_raster 2500 "''#000000''" "''#000000''"]
  have ph: "phase 2500 = 1 / 4"
    by (simp add: phase_def js_rem_def js_trunc_def duration_def)
  have r: "snd (lfr_render blank_raster 100 2500 stopped_lfr_dot) = Inr True"
    using t by simp
  have n: "repaints (fst (lfr_render blank_raster 100 2500 stopped_lfr_dot)) = 1"
    using t by (simp add: stopped_lfr_dot_fields)
  have p1: "paints ''#000000'' ''#000000'' (lfr_commands stopped_lfr_dot (phase 2500)) =
       [''rgba(219, 55, 19, 0)'', ''rgba(219, 55, 19, 1)'', ''rgba(237, 240, 240, 0.7)'']"
    using t by (simp add: stopped_lfr_dot_fields pulse_colors_def)
  have p2: "paints ''#000000'' ''#000000'' (lfr_commands ?u (phase 2500)) =
       [''rgba(219, 55, 19, 0.35)'', ''rgba(219, 55, 19, 1)'', ''rgba(237, 240, 240, 0.7)'']"
    using u
    by (simp add: stopped_lfr_dot_fields pulse_colors_def lfr_outer_style_def ph toFixed2_def
        digit_char_def)
  have sa: "css_alpha (stroke (pulse_colors (isGrey stopped_lfr_dot)
         (isCarrierVehicleOnRoute stopped_lfr_dot))) = ''0.7''"
    using t by (simp add: stopped_lfr_dot_fields)
  have io: "opaque_style (inner (pulse_colors (isGrey stopped_lfr_dot)
         (isCarrierVehicleOnRoute stopped_lfr_dot)))"
    using t by blast
  show ?thesis using r n p1 p2 sa io by blast
qed

text \<open>
  Claim C9 as stated fails in its last part: for a default (red) marker with the stop
  flag set, an admitted \<open>render\<close> strokes the inner circle with
  \<open>rgba(237, 240, 240, 0.7)\<close>, which is not opaque.
\<close>

theorem lfr_stroke_counterexample:
  "\<not> inner_circle_opaque stopped_lfr_dot (lfr_render blank_raster 100 100 stopped_lfr_dot)"
proof -
  let ?cx = "\<lparr>cv_width = 75, cv_height = 75, cv_log = []\<rparr>"
  have g: "\<not> (100::real) - lastUpdate stopped_lfr_dot < lfr_updateInterval"
    by (simp add: stopped_lfr_dot_fields lfr_updateInterval_def)
  have c: "this_context stopped_lfr_dot = Some ?cx" by (rule stopped_lfr_dot_fields)
  have w: "0 < width stopped_lfr_dot" and h: "0 < height stopped_lfr_dot"
    by (simp_all add: stopped_lfr_dot_fields)
  note r = lfr_render_admit [OF g c w h, of blank_raster 100]
  have iss: "issued stopped_lfr_dot (fst (lfr_render blank_raster 100 100 stopped_lfr_dot))
      = lfr_commands stopped_lfr_dot (phase 100)"
    by (simp add: r issued_def log_of_def draw_def stopped_lfr_dot_fields)
  have "css_alpha (stroke (pulse_colors (isGrey stopped_lfr_dot)
      (isCarrierVehicleOnRoute stopped_lfr_dot))) = ''0.7''"
    by (simp add: css_alpha_stroke stopped_lfr_dot_fields)
  then have "\<not> opaque_style (stroke (pulse_colors (isGrey stopped_lfr_dot)
      (isCarrierVehicleOnRoute stopped_lfr_dot)))"
    by (simp add: opaque_style_def)
  then show ?thesis
    by (simp add: inner_circle_opaque_def iss paints_lfr_commands)
qed

lemma opa_render_stopped:
  assumes "stopPulse s"
  shows "snd (opa_render R now now' s) = Inr False"
    and "data (fst (opa_render R now now' s)) = data s"
    and "this_context (fst (opa_render R now now' s)) = this_context s"
    and "repaints (fst (opa_render R now now' s)) = repaints s"
    and "stopPulse (fst (opa_render R now now' s))"
  using assms by (simp_all add: opa_render_def Let_def)

text \<open>
  Claim C2 as stated fails for the low-frame-rate variant: with the stop flag set, an
  admitted \<open>render\<close> returns \<open>true\<close> and fills the inner circle with the opaque
  \<open>rgba(219, 55, 19, 1)\<close>.
\<close>

theorem stop_flag_counterexample:
  "\<not> stop_suppressed stopped_lfr_dot (lfr_render blank_raster 100 100 stopped_lfr_dot)"
proof -
  let ?cx = "\<lparr>cv_width = 75, cv_height = 75, cv_log = []\<rparr>"
  have g: "\<not> (100::real) - lastUpdate stopped_lfr_dot < lfr_updateInterval"
    by (simp add: stopped_lfr_dot_fields lfr_updateInterval_def)
  have c: "this_context stopped_lfr_dot = Some ?cx" by (rule stopped_lfr_dot_fields)
  have w: "0 < width stopped_lfr_dot" and h: "0 < height stopped_lfr_dot"
    by (simp_all add: stopped_lfr_dot_fields)
  note r = lfr_render_admit [OF g c w h, of blank_raster 100]
  have res: "snd (lfr_render blank_raster 100 100 stopped_lfr_dot) = Inr True"
    by (simp add: r)
  have iss: "issued stopped_lfr_dot (fst (lfr_render blank_raster 100 100 stopped_lfr_dot))
      = lfr_commands stopped_lfr_dot (phase 100)"
    by (simp add: r issued_def log_of_def draw_def stopped_lfr_dot_fields)
  have "\<not> fully_transparent (inner (pulse_colors (isGrey stopped_lfr_dot)
      (isCarrierVehicleOnRoute stopped_lfr_dot)))"
    by (simp add: fully_transparent_def css_alpha_inner)
  then have "\<not> list_all fully_transparent
      (paints ''#000000'' ''#000000'' (lfr_commands stopped_lfr_dot (phase 100)))"
    by (simp add: paints_lfr_commands)
  then show ?thesis
    by (simp add: stop_suppressed_def res iss)
qed

text \<open>
  Claim C2, amended. With the stop flag set: \<open>render\<close> of the static and CSS variants
  returns \<open>false\<close> and the object unchanged; \<open>render\<close> of the opacity variant
  returns \<open>false\<close> at any clock value and leaves buffer, canvas and flag alone;
  \<open>render\<close> of the low-frame-rate variant is skipped inside the interval, and an
  admitted one returns \<open>true\<close> having painted the outer circle with the fully
  transparent style and the inner circle with its usual fill and stroke. The context
  and the flag stay in place.
\<close>

theorem stop_flag_effect:
  fixes s :: dot and m :: marker
  shows "static_render m = (m, False)
    \<and> css_render m = (m, False)
    \<and> (stopPulse s \<longrightarrow>
          stop_suppressed s (opa_render R now now' s)
        \<and> snd (opa_render R now now' s) = Inr False
        \<and> data (fst (opa_render R now now' s)) = data s
        \<and> this_context (fst (opa_render R now now' s)) = this_context s
        \<and> stopPulse (fst (opa_render R now now' s)))
    \<and> (stopPulse s \<and> now - lastUpdate s < lfr_updateInterval \<longrightarrow>
          lfr_render R now now' s = (s, Inr False))
    \<and> (stopPulse s \<and> \<not> now - lastUpdate s < lfr_updateInterval \<and> this_context s = Some cx
          \<and> 0 < width s \<and> 0 < height s \<longrightarrow>
          snd (lfr_render R now now' s) = Inr True
        \<and> stopPulse (fst (lfr_render R now now' s))
        \<and> this_context (fst (lfr_render R now now' s)) =
            Some (draw cx (lfr_commands s (phase now')))
        \<and> paints f k (lfr_commands s (phase now')) =
            [''rgba(219, 55, 19, 0)'',
             inner (pulse_colors (isGrey s) (isCarrierVehicleOnRoute s)),
             stroke (pulse_colors (isGrey s) (isCarrierVehicleOnRoute s))])"
proof -
  have opa: "stop_suppressed s (opa_render R now now' s)" if "stopPulse s"
    using opa_render_stopped [OF that] by (simp add: stop_suppressed_def)
  have lfr: "snd (lfr_render R now now' s) = Inr True
        \<and> stopPulse (fst (lfr_render R now now' s))
        \<and> this_context (fst (lfr_render R now now' s)) =
            Some (draw cx (lfr_commands s (phase now')))
        \<and> paints f k (lfr_commands s (phase now')) =
            [''rgba(219, 55, 19, 0)'',
             inner (pulse_colors (isGrey s) (isCarrierVehicleOnRoute s)),
             stroke (pulse_colors (isGrey s) (isCarrierVehicleOnRoute s))]"
    if "stopPulse s" "\<not> now - lastUpdate s < lfr_updateInterval" "this_context s = Some cx"
      "0 < width s" "0 < height s"
    using that lfr_render_admit [OF that(2-5)]
    by (simp add: paints_lfr_commands lfr_outer_style_def)
  show ?thesis
    using opa lfr opa_render_stopped lfr_render_skip
    by (simp add: static_render_def css_render_def)
qed

theorem stop_flag_effect_witness:
  "snd (opa_render blank_raster 1000 1001 ((createOpacityPulsingDot False False)\<lparr>stopPulse := True\<rparr>))
     = Inr False
   \<and> data (fst (opa_render blank_raster 1000 1001
        ((createOpacityPulsingDot False False)\<lparr>stopPulse := True\<rparr>)))
     = data (createOpacityPulsingDot False False)
   \<and> lfr_render blank_raster 50 50 stopped_lfr_dot = (stopped_lfr_dot, Inr False)
   \<and> snd (lfr_render blank_raster 100 100 stopped_lfr_dot) = Inr True
   \<and> paints ''#000000'' ''#000000'' (lfr_commands stopped_lfr_dot (phase 100)) =
       [''rgba(219, 55, 19, 0)'', ''rgba(219, 55, 19, 1)'', ''rgba(237, 240, 240, 0.7)'']"
proof -
  let ?o = "(createOpacityPulsingDot False False)\<lparr>stopPulse := True\<rparr>"
  let ?cx = "\<lparr>cv_width = 75, cv_height = 75, cv_log = []\<rparr>"
  have so: "stopPulse ?o" by simp
  have o: "snd (opa_render blank_raster 1000 1001 ?o) = Inr False
      \<and> data (fst (opa_render blank_raster 1000 1001 ?o)) = data ?o"
    using so stop_flag_effect [where s = ?o and R = blank_raster and now = 1000 and now' = 1001]
    by blast
  have sk: "stopPulse stopped_lfr_dot \<and> (50::real) - lastUpdate stopped_lfr_dot < lfr_updateInterval"
    by (simp add: stopped_lfr_dot_fields lfr_updateInterval_def)
  have l1: "lfr_render blank_raster 50 50 stopped_lfr_dot = (stopped_lfr_dot, Inr False)"
    using sk stop_flag_effect [where s = stopped_lfr_dot and R = blank_raster and now = 50
        and now' = 50] by blast
  have ad: "stopPulse stopped_lfr_dot
      \<and> \<not> (100::real) - lastUpdate stopped_lfr_dot < lfr_updateInterval
      \<and> this_context stopped_lfr_dot = Some ?cx
      \<and> 0 < width stopped_lfr_dot \<and> 0 < height stopped_lfr_dot"
    by (simp add: stopped_lfr_dot_fields lfr_updateInterval_def)
  have l2: "snd (lfr_render blank_raster 100 100 stopped_lfr_dot) = Inr True
      \<and> paints ''#000000'' ''#000000'' (lfr_commands stopped_lfr_dot (phase 100)) =
        [''rgba(219, 55, 19, 0)'',
         inner (pulse_colors (isGrey stopped_lfr_dot) (isCarrierVehicleOnRoute stopped_lfr_dot)),
         stroke (pulse_colors (isGrey stopped_lfr_dot) (isCarrierVehicleOnRoute stopped_lfr_dot))]"
    using ad stop_flag_effect [where s = stopped_lfr_dot and R = blank_raster and now = 100
        and now' = 100 and cx = ?cx and f = "''#000000''" and k = "''#000000''"] by blast
  show ?thesis
    using o l1 l2 by (simp add: stopped_lfr_dot_fields pulse_colors_def)
qed

subsection \<open>The opacity variant\<close>

lemma image_bytes_nth:
  "i < w * h * 4 \<Longrightarrow>
     image_bytes R cx w h ! i = R cx ((i div 4) mod w) ((i div 4) div w) (i mod 4)"
  by (simp add: image_bytes_def)

lemma alpha_loop_nth:
  "j < length d \<Longrightarrow>
     alpha_loop op i d ! j =
       (if i \<le> j \<and> (j - i) mod 4 = 0 then toUint8Clamp (real (unat (d ! j)) * op) else d ! j)"
proof (induction op i d rule: alpha_loop.induct)
  case (1 op i d)
  show ?case
  proof (cases "i < length d")
    case False
    with "1.prems" show ?thesis by (subst alpha_loop.simps) simp
  next
    case True
    let ?d = "d[i := toUint8Clamp (real (unat (d ! i)) * op)]"
    have step: "alpha_loop op i d = alpha_loop op (i + 4) ?d"
      using True by (subst alpha_loop.simps) simp
    have ih: "alpha_loop op (i + 4) ?d ! j =
       (if i + 4 \<le> j \<and> (j - (i + 4)) mod 4 = 0
        then toUint8Clamp (real (unat (?d ! j)) * op) else ?d ! j)"
      using "1.IH" [OF True] "1.prems" by simp
    show ?thesis
    proof (cases "j = i")
      case True
      show ?thesis
        unfolding step ih using True \<open>i < length d\<close> by simp
    next
      case False
      have "(i + 4 \<le> j \<and> (j - (i + 4)) mod 4 = 0) \<longleftrightarrow> (i \<le> j \<and> (j - i) mod 4 = 0)"
        using False by presburger
      then show ?thesis
        unfolding step ih using False by simp
    qed
  qed
qed

lemma alpha_loop_3_nth:
  assumes "j < length d"
  shows "alpha_loop op 3 d ! j =
       (if j mod 4 = 3 then toUint8Clamp (real (unat (d ! j)) * op) else d ! j)"
proof -
  have "(3 \<le> j \<and> (j - 3) mod 4 = 0) \<longleftrightarrow> j mod 4 = 3" by presburger
  then show ?thesis using alpha_loop_nth [OF assms, of op 3] by simp
qed

lemma opa_render_admit:
  assumes "\<not> now - lastUpdate s < opa_updateInterval" and "\<not> stopPulse s"
    and "this_context s = Some cx" and "0 < width s" and "0 < height s"
  shows "opa_render R now now' s =
     (s\<lparr>lastUpdate := now,
        data := alpha_loop (opacity (phase now')) 3 (image_bytes R cx (width s) (height s)),
        repaints := repaints s + 1\<rparr>, Inr True)"
  using assms by (simp add: opa_render_def Let_def getImageData_def)

lemma opa_render_data_nth:
  assumes "\<not> now - lastUpdate s < opa_updateInterval" and "\<not> stopPulse s"
    and "this_context s = Some cx" and "0 < width s" and "0 < height s"
    and "i < width s * height s * 4"
  shows "data (fst (opa_render R now now' s)) ! i =
     (if i mod 4 = 3
      then toUint8Clamp (real (unat (image_bytes R cx (width s) (height s) ! i)) *
             opacity (phase now'))
      else image_bytes R cx (width s) (height s) ! i)"
proof -
  have "i < length (image_bytes R cx (width s) (height s))"
    using assms(6) by (simp add: image_bytes_def)
  then show ?thesis
    by (simp add: opa_render_admit [OF assms(1-5)] alpha_loop_3_nth)
qed

text \<open>
  Claim C10. An admitted, unstopped \<open>render\<close> of the opacity variant returns
  \<open>true\<close> with the canvas as it was, and its buffer is the bitmap of the canvas with
  every byte of index 3 modulo 4 replaced by that byte times \<open>opacity\<close> of the
  tick's phase, stored in a \<open>Uint8ClampedArray\<close> (so rounded to a byte); the red,
  green and blue bytes are those of the canvas. The next admitted tick is computed from
  the same bitmap and its own factor only: nothing of the previous tick enters it.
\<close>

theorem opacity_scales_alpha_only:
  assumes "\<not> now - lastUpdate s < opa_updateInterval" and "\<not> stopPulse s"
    and "this_context s = Some cx" and "0 < width s" and "0 < height s"
  shows "snd (opa_render R now now' s) = Inr True
   \<and> this_context (fst (opa_render R now now' s)) = Some cx
   \<and> length (data (fst (opa_render R now now' s))) = width s * height s * 4
   \<and> (\<forall>i < width s * height s * 4.
         data (fst (opa_render R now now' s)) ! i =
           (if i mod 4 = 3
            then toUint8Clamp (real (unat (image_bytes R cx (width s) (height s) ! i)) *
                   opacity (phase now'))
            else image_bytes R cx (width s) (height s) ! i))
   \<and> (\<not> b - now < opa_updateInterval \<longrightarrow>
        (\<forall>i < width s * height s * 4.
           data (fst (opa_render R b b' (fst (opa_render R now now' s)))) ! i =
             (if i mod 4 = 3
              then toUint8Clamp (real (unat (image_bytes R cx (width s) (height s) ! i)) *
                     opacity (phase b'))
              else image_bytes R cx (width s) (height s) ! i)))"
proof -
  let ?s1 = "fst (opa_render R now now' s)"
  note r = opa_render_admit [OF assms]
  have one: "snd (opa_render R now now' s) = Inr True" "this_context ?s1 = Some cx"
      "length (data ?s1) = width s * height s * 4"
    by (simp_all add: r length_alpha_loop length_image_bytes assms(3))
  have s1: "lastUpdate ?s1 = now" "\<not> stopPulse ?s1" "width ?s1 = width s" "height ?s1 = height s"
    by (simp_all add: r assms(2))
  have two: "data (fst (opa_render R b b' ?s1)) ! i =
             (if i mod 4 = 3
              then toUint8Clamp (real (unat (image_bytes R cx (width s) (height s) ! i)) *
                     opacity (phase b'))
              else image_bytes R cx (width s) (height s) ! i)"
    if "\<not> b - now < opa_updateInterval" "i < width s * height s * 4" for i
    using opa_render_data_nth [of b ?s1 cx i R b'] that s1 one(2) assms(4,5) by simp
  show ?thesis
    using one two opa_render_data_nth [OF assms] by blast
qed

lemma added_opacity_dot_fields:
  "lastUpdate added_opacity_dot = 0"
  "this_context added_opacity_dot = Some \<lparr>cv_width = 75, cv_height = 75, cv_log = []\<rparr>"
  "width added_opacity_dot = 75" "height added_opacity_dot = 75"
  "\<not> stopPulse added_opacity_dot"
  by (simp_all add: added_opacity_dot_def opa_onAdd_def createOpacityPulsingDot_def
      getContext2d_def dot_size_def)

lemma phase_values: "phase 2000 = 0" "phase 3000 = 1 / 2" "phase 3500 = 3 / 4"
  by (simp_all add: phase_def js_rem_def js_trunc_def duration_def)

lemma opacity_values: "opacity 0 = 3 / 10" "opacity (1 / 2) = 1"
  by (simp_all add: opacity_def)

lemma toUint8Clamp_values: "toUint8Clamp (153 / 2) = 76" "toUint8Clamp 255 = 255"
  by (simp_all add: toUint8Clamp_def clamp_round_def)

theorem opacity_scales_alpha_only_witness:
  "snd (opa_render white_raster 100 2000 added_opacity_dot) = Inr True
   \<and> data (fst (opa_render white_raster 100 2000 added_opacity_dot)) ! 3 = 76
   \<and> data (fst (opa_render white_raster 100 2000 added_opacity_dot)) ! 2 = 255
   \<and> data (fst (opa_render white_raster 200 3000
        (fst (opa_render white_raster 100 2000 added_opacity_dot)))) ! 3 = 255"
proof -
  let ?cx = "\<lparr>cv_width = 75, cv_height = 75, cv_log = []\<rparr>"
  have g: "\<not> (100::real) - lastUpdate added_opacity_dot < opa_updateInterval"
    by (simp add: added_opacity_dot_fields opa_updateInterval_def)
  have n: "\<not> stopPulse added_opacity_dot" by (rule added_opacity_dot_fields)
  have c: "this_context added_opacity_dot = Some ?cx" by (rule added_opacity_dot_fields)
  have w: "0 < width added_opacity_dot" and h: "0 < height added_opacity_dot"
    by (simp_all add: added_opacity_dot_fields)
  have g2: "\<not> (200::real) - 100 < opa_updateInterval"
    by (simp add: opa_updateInterval_def)
  have i3: "(3::nat) < width added_opacity_dot * height added_opacity_dot * 4"
    and i2: "(2::nat) < width added_opacity_dot * height added_opacity_dot * 4"
    by (simp_all add: added_opacity_dot_fields)
  have img: "image_bytes white_raster ?cx 75 75 ! 3 = 255"
      "image_bytes white_raster ?cx 75 75 ! 2 = 255"
    by (simp_all add: image_bytes_nth white_raster_def)
  note t = opacity_scales_alpha_only [OF g n c w h, of white_raster 2000 200 3000]
  have r: "snd (opa_render white_raster 100 2000 added_opacity_dot) = Inr True"
    using t by blast
  have a3: "data (fst (opa_render white_raster 100 2000 added_opacity_dot)) ! 3 =
      toUint8Clamp (real (unat (image_bytes white_raster ?cx (width added_opacity_dot)
        (height added_opacity_dot) ! 3)) * opacity (phase 2000))"
    using t i3 by simp
  have a2: "data (fst (opa_render white_raster 100 2000 added_opacity_dot)) ! 2 =
      image_bytes white_raster ?cx (width added_opacity_dot) (height added_opacity_dot) ! 2"
    using t i2 by simp
  have b3: "data (fst (opa_render white_raster 200 3000
        (fst (opa_render white_raster 100 2000 added_opacity_dot)))) ! 3 =
      toUint8Clamp (real (unat (image_bytes white_raster ?cx (width added_opacity_dot)
        (height added_opacity_dot) ! 3)) * opacity (phase 3000))"
    using t g2 i3 by simp
  show ?thesis
    using r a3 a2 b3
    by (simp add: added_opacity_dot_fields img phase_values opacity_values toUint8Clamp_values)
qed

lemma clamp_round_le_255: "clamp_round x \<le> 255"
proof (cases "x \<le> 0 \<or> 255 \<le> x")
  case True
  then show ?thesis by (auto simp: clamp_round_def)
next
  case False
  then have "\<lfloor>x\<rfloor> < 255" by (simp add: floor_less_iff)
  then have "nat \<lfloor>x\<rfloor> \<le> 254" "nat (\<lfloor>x\<rfloor> + 1) \<le> 255" by linarith+
  then show ?thesis
    using False by (simp add: clamp_round_def Let_def)
qed

lemma clamp_round_mono:
  assumes "x \<le> y"
  shows "clamp_round x \<le> clamp_round y"
proof (cases "x \<le> 0")
  case True
  then show ?thesis by (simp add: clamp_round_def)
next
  case x0: False
  show ?thesis
  proof (cases "255 \<le> y")
    case True
    then have "clamp_round y = 255" using assms by (simp add: clamp_round_def)
    then show ?thesis using clamp_round_le_255 [of x] by simp
  next
    case y255: False
    have fl: "\<lfloor>x\<rfloor> \<le> \<lfloor>y\<rfloor>" using assms by (rule floor_mono)
    have fx: "of_int \<lfloor>x\<rfloor> \<le> x" "x < of_int \<lfloor>x\<rfloor> + 1"
      and fy: "of_int \<lfloor>y\<rfloor> \<le> y" "y < of_int \<lfloor>y\<rfloor> + 1"
      by linarith+
    have fx0: "0 \<le> \<lfloor>x\<rfloor>" using x0 by simp
    show ?thesis
    proof (cases "\<lfloor>x\<rfloor> = \<lfloor>y\<rfloor>")
      case True
      then show ?thesis
        using assms x0 y255 fx0
        by (auto simp: clamp_round_def Let_def)
    next
      case False
      with fl have "\<lfloor>x\<rfloor> + 1 \<le> \<lfloor>y\<rfloor>" by simp
      then show ?thesis
        using assms x0 y255 fx0
        by (auto simp: clamp_round_def Let_def)
    qed
  qed
qed

lemma toUint8Clamp_mono:
  assumes "x \<le> y"
  shows "toUint8Clamp x \<le> toUint8Clamp y"
proof -
  have u: "unat (toUint8Clamp z) = clamp_round z" for z
    using clamp_round_le_255 [of z] by (simp add: toUint8Clamp_def unat_of_nat)
  show ?thesis
    using clamp_round_mono [OF assms] by (simp add: word_le_nat_alt u)
qed

lemma phase_less_1: "phase x < 1"
proof -
  have "x / 2000 - of_int (js_trunc (x / 2000)) < 1"
    by (simp add: js_trunc_def) linarith
  then show ?thesis
    by (simp add: phase_def js_rem_def duration_def field_simps)
qed

lemma phase_mono:
  assumes "x \<le> y" and "js_trunc (x / duration) = js_trunc (y / duration)"
  shows "phase x \<le> phase y"
  using assms by (simp add: phase_def js_rem_def duration_def field_simps)

lemma sin_fade_out:
  assumes "1 / 2 \<le> t" and "t \<le> u" and "u \<le> 1"
  shows "sin (u * pi) \<le> sin (t * pi)"
proof -
  have "sin (pi - u * pi) \<le> sin (pi - t * pi)"
  proof (rule sin_monotone_2pi_le)
    have "u * pi \<le> 1 * pi" using assms(3) by (intro mult_right_mono) simp_all
    then show "- (pi / 2) \<le> pi - u * pi" using pi_gt_zero by linarith
    have "t * pi \<le> u * pi" using assms(2) by (intro mult_right_mono) simp_all
    then show "pi - u * pi \<le> pi - t * pi" by simp
    have "1 / 2 * pi \<le> t * pi" using assms(1) by (intro mult_right_mono) simp_all
    then show "pi - t * pi \<le> pi / 2" by simp
  qed
  then show ?thesis by simp
qed

lemma opacity_fade_out:
  assumes "1 / 2 \<le> t" and "t \<le> u" and "u \<le> 1"
  shows "opacity u \<le> opacity t"
  using sin_fade_out [OF assms] by (simp add: opacity_def)

text \<open>
  Claim C5. Take two consecutive admitted, unstopped ticks of the opacity variant whose
  second clock readings \<open>a'\<close> and \<open>b'\<close> lie in the same 2-second cycle, in this
  order, the first at phase at least \<open>1/2\<close>. Then the second phase lies in
  \<open>[1/2, 1)\<close> too and no alpha byte of the second buffer exceeds the alpha byte at the
  same index of the first.
\<close>

theorem opacity_fade_monotone:
  assumes "\<not> a - lastUpdate s < opa_updateInterval" and "\<not> stopPulse s"
    and "this_context s = Some cx" and "0 < width s" and "0 < height s"
    and "\<not> b - a < opa_updateInterval"
    and "a' \<le> b'" and "js_trunc (a' / duration) = js_trunc (b' / duration)"
    and "1 / 2 \<le> phase a'"
  shows "1 / 2 \<le> phase b' \<and> phase b' < 1
   \<and> (\<forall>i < width s * height s * 4. i mod 4 = 3 \<longrightarrow>
         data (fst (opa_render R b b' (fst (opa_render R a a' s)))) ! i
           \<le> data (fst (opa_render R a a' s)) ! i)"
proof -
  let ?s1 = "fst (opa_render R a a' s)"
  let ?img = "image_bytes R cx (width s) (height s)"
  have ph: "phase a' \<le> phase b'" using assms(7,8) by (rule phase_mono)
  have lt: "phase b' < 1" by (rule phase_less_1)
  have op: "opacity (phase b') \<le> opacity (phase a')"
    using assms(9) ph lt by (intro opacity_fade_out) simp_all
  note r = opa_render_admit [OF assms(1-5)]
  have s1: "\<not> b - lastUpdate ?s1 < opa_updateInterval" "\<not> stopPulse ?s1"
      "this_context ?s1 = Some cx" "0 < width ?s1" "0 < height ?s1"
      "width ?s1 = width s" "height ?s1 = height s"
    using assms(2-6) by (simp_all add: r)
  have "data (fst (opa_render R b b' ?s1)) ! i \<le> data ?s1 ! i"
    if "i < width s * height s * 4" "i mod 4 = 3" for i
  proof -
    have d1: "data ?s1 ! i = toUint8Clamp (real (unat (?img ! i)) * opacity (phase a'))"
      using opa_render_data_nth [OF assms(1-5) that(1)] that(2) by simp
    have "i < width ?s1 * height ?s1 * 4" using that(1) s1(6,7) by simp
    from opa_render_data_nth [OF s1(1-5) this]
    have d2: "data (fst (opa_render R b b' ?s1)) ! i =
        toUint8Clamp (real (unat (?img ! i)) * opacity (phase b'))"
      using that(2) s1(6,7) by simp
    have "real (unat (?img ! i)) * opacity (phase b') \<le> real (unat (?img ! i)) * opacity (phase a')"
      by (rule mult_left_mono [OF op of_nat_0_le_iff])
    then show ?thesis unfolding d1 d2 by (rule toUint8Clamp_mono)
  qed
  then show ?thesis using ph lt assms(9) by auto
qed

theorem opacity_fade_monotone_witness:
  "data (fst (opa_render white_raster 200 3500
       (fst (opa_render white_raster 100 3000 added_opacity_dot)))) ! 3
     \<le> data (fst (opa_render white_raster 100 3000 added_opacity_dot)) ! 3
   \<and> phase 3000 = 1 / 2 \<and> 1 / 2 \<le> phase 3500 \<and> phase 3500 < 1"
proof -
  let ?cx = "\<lparr>cv_width = 75, cv_height = 75, cv_log = []\<rparr>"
  have g: "\<not> (100::real) - lastUpdate added_opacity_dot < opa_updateInterval"
    by (simp add: added_opacity_dot_fields opa_updateInterval_def)
  have n: "\<not> stopPulse added_opacity_dot" by (rule added_opacity_dot_fields)
  have c: "this_context added_opacity_dot = Some ?cx" by (rule added_opacity_dot_fields)
  have w: "0 < width added_opacity_dot" and h: "0 < height added_opacity_dot"
    by (simp_all add: added_opacity_dot_fields)
  have g2: "\<not> (200::real) - 100 < opa_updateInterval"
    by (simp add: opa_updateInterval_def)
  have le: "(3000::real) \<le> 3500" by simp
  have cyc: "js_trunc (3000 / duration) = js_trunc (3500 / duration)"
    by (simp add: js_trunc_def duration_def)
  have half: "1 / 2 \<le> phase 3000" by (simp add: phase_values)
  have i3: "(3::nat) < width added_opacity_dot * height added_opacity_dot * 4 \<and> (3::nat) mod 4 = 3"
    by (simp add: added_opacity_dot_fields)
  note t = opacity_fade_monotone [OF g n c w h g2 le cyc half, of white_raster]
  have "data (fst (opa_render white_raster 200 3500
       (fst (opa_render white_raster 100 3000 added_opacity_dot)))) ! 3
     \<le> data (fst (opa_render white_raster 100 3000 added_opacity_dot)) ! 3"
    using t i3 by blast
  moreover have "1 / 2 \<le> phase 3500 \<and> phase 3500 < 1" using t by blast
  ultimately show ?thesis by (simp add: phase_values)
qed

end
